theory Spec2Isabelle
  imports Main
begin

section \<open>JavaScript values, property access and exceptions\<close>

text \<open>
  The colour helper of \<^verbatim>\<open>src/common/color/helper.ts\<close> is dynamically typed: every
  argument is \<^verbatim>\<open>any\<close>. Values are modelled as JSON-like trees, with one more kind of
  value: \<open>Fn name\<close> is a function object that is known by a name only, such as a method
  that a value inherits from its prototype. Numbers are restricted to integers (no
  fractions, no NaN) and objects are association lists in enumeration order.
\<close>

datatype jsval =
    Undefined
  | Null
  | Bool bool
  | Num int
  | Str string
  | Arr "jsval list"
  | Obj "(string \<times> jsval) list"
  | Fn string

datatype error = TypeError

definition bindE :: "error + 'a \<Rightarrow> ('a \<Rightarrow> error + 'b) \<Rightarrow> error + 'b" where
  "bindE m f = (case m of Inl e \<Rightarrow> Inl e | Inr x \<Rightarrow> f x)"

fun mapE :: "('a \<Rightarrow> error + 'b) \<Rightarrow> 'a list \<Rightarrow> error + 'b list" where
  "mapE f [] = Inr []"
| "mapE f (x # xs) = bindE (f x) (\<lambda>y. bindE (mapE f xs) (\<lambda>ys. Inr (y # ys)))"

text \<open>\<^verbatim>\<open>if (v)\<close>: the falsy values are undefined, null, false, 0 and the empty string.\<close>

fun truthy :: "jsval \<Rightarrow> bool" where
  "truthy Undefined = False"
| "truthy Null = False"
| "truthy (Bool b) = b"
| "truthy (Num n) = (n \<noteq> 0)"
| "truthy (Str s) = (s \<noteq> [])"
| "truthy (Arr xs) = True"
| "truthy (Obj kvs) = True"
| "truthy (Fn n) = True"

text \<open>
  \<^verbatim>\<open>Array.isArray(v)\<close>, \<^verbatim>\<open>typeof v === 'object'\<close> (which null satisfies) and
  \<^verbatim>\<open>typeof v === 'function'\<close>.
\<close>

fun isArray :: "jsval \<Rightarrow> bool" where
  "isArray (Arr xs) = True"
| "isArray v = False"

fun typeofObject :: "jsval \<Rightarrow> bool" where
  "typeofObject Null = True"
| "typeofObject (Arr xs) = True"
| "typeofObject (Obj kvs) = True"
| "typeofObject v = False"

fun isFunction :: "jsval \<Rightarrow> bool" where
  "isFunction (Fn n) = True"
| "isFunction v = False"

fun nullish :: "jsval \<Rightarrow> bool" where
  "nullish Undefined = True"
| "nullish Null = True"
| "nullish v = False"

text \<open>Decimal rendering of an array index, the property name under which it is stored.\<close>

fun showNat :: "nat \<Rightarrow> string" where
  "showNat n =
     (if n < 10 then [''0123456789'' ! n]
      else showNat (n div 10) @ [''0123456789'' ! (n mod 10)])"

declare showNat.simps [simp del]

definition indexKeys :: "nat \<Rightarrow> string list" where
  "indexKeys n = map showNat [0..<n]"

text \<open>
  What a value finds on its prototype chain, and what a function does when it is
  called, depend on the engine and on what the program has put on the prototypes. They
  are parameters of the model, a \<open>realm\<close>:
  \<^item> \<open>inherited R v k\<close> is the member \<open>k\<close> that \<open>v\<close> does not own but inherits, undefined
    when there is none; for a boolean, a number and a function all properties are
    taken from here;
  \<^item> \<open>callFn R name x y z\<close> is the call \<^verbatim>\<open>f(x, y, z)\<close> of the function \<open>Fn name\<close>, without
    a receiver;
  \<^item> \<open>callAsMap R name v attr\<close> is the call \<^verbatim>\<open>v.map(callback)\<close> when \<open>v\<close> is not an array
    and its \<^verbatim>\<open>map\<close> is the function \<open>Fn name\<close>, for the callback that \<^verbatim>\<open>rangeHelper\<close>
    builds for \<open>attr\<close>.
  The built-ins that the helper calls itself (\<^verbatim>\<open>Array.prototype.map\<close> and
  \<^verbatim>\<open>flatMap\<close> on arrays, \<^verbatim>\<open>Array.isArray\<close>, \<^verbatim>\<open>Object.keys\<close>, \<^verbatim>\<open>Set\<close>, \<^verbatim>\<open>Map\<close>) are the standard
  ones.
\<close>

record realm =
  inherited :: "jsval \<Rightarrow> string \<Rightarrow> jsval"
  callFn :: "string \<Rightarrow> jsval \<Rightarrow> jsval \<Rightarrow> jsval \<Rightarrow> error + jsval"
  callAsMap :: "string \<Rightarrow> jsval \<Rightarrow> string \<Rightarrow> error + jsval"

text \<open>
  \<open>lookupProp R v k\<close> is \<^verbatim>\<open>v?.[k]\<close>: undefined when \<open>v\<close> is null or undefined, else the
  own property \<open>k\<close> of \<open>v\<close> when it has one (arrays and strings own their elements and
  \<^verbatim>\<open>length\<close>), else the inherited member. \<open>getProp R v k\<close> is \<^verbatim>\<open>v[k]\<close>, which throws a
  TypeError on null and undefined.
\<close>

fun lookupProp :: "realm \<Rightarrow> jsval \<Rightarrow> string \<Rightarrow> jsval" where
  "lookupProp R Undefined k = Undefined"
| "lookupProp R Null k = Undefined"
| "lookupProp R (Obj kvs) k =
     (case map_of kvs k of Some v \<Rightarrow> v | None \<Rightarrow> inherited R (Obj kvs) k)"
| "lookupProp R (Arr xs) k =
     (if k = ''length'' then Num (int (length xs))
      else (case map_of (zip (indexKeys (length xs)) xs) k of
              Some v \<Rightarrow> v | None \<Rightarrow> inherited R (Arr xs) k))"
| "lookupProp R (Str s) k =
     (if k = ''length'' then Num (int (length s))
      else (case map_of (zip (indexKeys (length s)) (map (\<lambda>c. Str [c]) s)) k of
              Some v \<Rightarrow> v | None \<Rightarrow> inherited R (Str s) k))"
| "lookupProp R v k = inherited R v k"

definition getProp :: "realm \<Rightarrow> jsval \<Rightarrow> string \<Rightarrow> error + jsval" where
  "getProp R v k = (if nullish v then Inl TypeError else Inr (lookupProp R v k))"

text \<open>
  \<^verbatim>\<open>Object.keys(v)\<close>: throws on null and undefined, else lists the own enumerable keys
  (\<open>ownKeys\<close>): the keys of an object, the indices of an array or a string, nothing for
  the other values.
\<close>

fun ownKeys :: "jsval \<Rightarrow> string list" where
  "ownKeys (Obj kvs) = map fst kvs"
| "ownKeys (Arr xs) = indexKeys (length xs)"
| "ownKeys (Str s) = indexKeys (length s)"
| "ownKeys v = []"

definition objectKeys :: "jsval \<Rightarrow> error + string list" where
  "objectKeys v = (if nullish v then Inl TypeError else Inr (ownKeys v))"

text \<open>
  \<^verbatim>\<open>[...new Set(xs)]\<close>: a JavaScript Set keeps each value once, at the position of its
  first insertion.
\<close>

definition insertNew :: "'a list \<Rightarrow> 'a \<Rightarrow> 'a list" where
  "insertNew acc x = (if x \<in> set acc then acc else acc @ [x])"

definition uniqueInOrder :: "'a list \<Rightarrow> 'a list" where
  "uniqueInOrder xs = foldl insertNew [] xs"

text \<open>
  A JavaScript \<^verbatim>\<open>Map<string, V>\<close> as an association list in insertion order;
  \<^verbatim>\<open>set\<close> overwrites in place or appends. \<open>mapKeys\<close> reads the keys of a map that was
  returned.
\<close>

fun mapSet :: "string \<Rightarrow> 'v \<Rightarrow> (string \<times> 'v) list \<Rightarrow> (string \<times> 'v) list" where
  "mapSet k v [] = [(k, v)]"
| "mapSet k v ((k', v') # m) = (if k' = k then (k, v) # m else (k', v') # mapSet k v m)"


section \<open>The colour scheme and the helper's arguments\<close>

text \<open>
  \<^verbatim>\<open>ColorSchemeType\<close> is a callback \<^verbatim>\<open>(data, index, active) => string\<close>, an array of
  style objects, an array of strings or a string. The model keeps the caller's
  callback apart, as the function it is (it may throw), and takes every other value as
  it comes.
\<close>

datatype colorSchemeType =
    Callback "jsval \<Rightarrow> jsval \<Rightarrow> jsval \<Rightarrow> error + jsval"
  | Value jsval

fun truthyScheme :: "colorSchemeType \<Rightarrow> bool" where
  "truthyScheme (Callback f) = True"
| "truthyScheme (Value v) = truthy v"

text \<open>
  A scale constructor used as \<^verbatim>\<open>scale(colorScheme).domain(domain)(key)\<close>: the palette,
  the domain and the key, in this order.
\<close>

type_synonym scaleFn = "jsval list \<Rightarrow> jsval \<Rightarrow> jsval \<Rightarrow> error + jsval"

text \<open>
  \<^verbatim>\<open>Partial<ColorHelperProps>\<close>. A field that the caller leaves out reads as
  \<open>Undefined\<close>; the three fields with a default (\<^verbatim>\<open>attribute\<close>, \<^verbatim>\<open>isMultiSeries\<close>,
  \<^verbatim>\<open>scale\<close>) are \<open>None\<close> when left out.
\<close>

record props =
  colorScheme :: colorSchemeType
  point :: jsval
  data :: jsval
  index :: jsval
  active :: jsval
  scale :: "scaleFn option"
  domain :: jsval
  key :: jsval
  attribute :: "string option"
  isMultiSeries :: "bool option"

section \<open>Library functions the helper imports\<close>

text \<open>
  Modelled from the spec: \<^verbatim>\<open>scaleOrdinal\<close> (d3-scale) is imported, not defined, by
  the helper. The spec's ordinal scale "maps discrete keys to positions in a finite
  output palette by lookup" and assigns colours "by ordinal position of a derived
  key within a domain". As in d3, the domain is iterated (a TypeError when it cannot
  be), repeated domain entries count once, a key that is not in the domain takes the
  next free position, and positions wrap around the palette. Keys are compared as
  values.
\<close>

definition iterate :: "jsval \<Rightarrow> error + jsval list" where
  "iterate v =
     (case v of Arr xs \<Rightarrow> Inr xs | Str s \<Rightarrow> Inr (map (\<lambda>c. Str [c]) s) | _ \<Rightarrow> Inl TypeError)"

fun indexOf :: "'a \<Rightarrow> 'a list \<Rightarrow> nat" where
  "indexOf x [] = 0"
| "indexOf x (y # ys) = (if x = y then 0 else Suc (indexOf x ys))"

definition scaleOrdinal :: scaleFn where
  "scaleOrdinal palette dmn k =
     bindE (iterate dmn) (\<lambda>ds.
       Inr (if palette = [] then Undefined
            else palette ! (indexOf k (uniqueInOrder ds) mod length palette)))"

text \<open>
  Modelled from the spec: \<^verbatim>\<open>maxIndex\<close> (d3-array) is imported, not defined, by the
  helper. The spec has it select "the single series with the greatest element count
  (ties broken by first occurrence)". As in d3, the accessor runs on every element in
  order, null and undefined accessor values are skipped, a later value replaces the
  maximum only when strictly greater, and the result is -1 when nothing was selected.
  Values are compared as numbers; a value that is not a number never compares.
\<close>

fun jsLess :: "jsval \<Rightarrow> jsval \<Rightarrow> bool" where
  "jsLess (Num a) (Num b) = (a < b)"
| "jsLess v w = False"

fun isNum :: "jsval \<Rightarrow> bool" where
  "isNum (Num n) = True"
| "isNum v = False"

fun maxIndexLoop :: "jsval list \<Rightarrow> nat \<Rightarrow> jsval \<Rightarrow> int \<Rightarrow> int" where
  "maxIndexLoop [] i mx mi = mi"
| "maxIndexLoop (v # vs) i mx mi =
     (if jsLess mx v \<or> (mx = Undefined \<and> isNum v)
      then maxIndexLoop vs (Suc i) v (int i)
      else maxIndexLoop vs (Suc i) mx mi)"

definition maxIndex :: "jsval list \<Rightarrow> (jsval \<Rightarrow> error + jsval) \<Rightarrow> error + int" where
  "maxIndex vals valueof = bindE (mapE valueof vals) (\<lambda>vs. Inr (maxIndexLoop vs 0 Undefined (- 1)))"

text \<open>\<^verbatim>\<open>xs[i]\<close> on an array, for a number \<open>i\<close>: undefined outside the array.\<close>

definition arrayAt :: "jsval list \<Rightarrow> int \<Rightarrow> jsval" where
  "arrayAt xs i = (if 0 \<le> i \<and> i < int (length xs) then xs ! nat i else Undefined)"
text \<open>
  The named schemes table (\<^verbatim>\<open>./schemes\<close>), the quantile scale (d3-scale),
  \<^verbatim>\<open>uniqueBy\<close> (\<^verbatim>\<open>../utils\<close>) and \<^verbatim>\<open>extent\<close> (d3-array) are not
  in the source file: with the realm they are parameters of the model. \<open>schemes L name\<close>
  is what the read \<^verbatim>\<open>schemes[name]\<close> gives: an entry of the table, a member that the
  table object inherits, or \<open>Value Undefined\<close>.
\<close>

record libs =
  realm :: realm
  schemes :: "string \<Rightarrow> colorSchemeType"
  scaleQuantile :: scaleFn
  uniqueBy :: "jsval \<Rightarrow> (jsval \<Rightarrow> error + jsval) \<Rightarrow> (jsval \<Rightarrow> error + jsval) \<Rightarrow> error + jsval"
  extent :: "jsval \<Rightarrow> error + jsval"

section \<open>The helper\<close>

text \<open>
  \<^verbatim>\<open>rangeHelper\<close> (lines 30-41). \<open>rangeEntry\<close> is the callback of its \<^verbatim>\<open>map\<close>. On an
  array \<^verbatim>\<open>point.map\<close> is the array's own mapping; on null and undefined reading
  \<^verbatim>\<open>map\<close> throws; on any other value the call throws unless the value has a function
  under the name \<^verbatim>\<open>map\<close>, which is then called.
\<close>

definition rangeEntry :: "realm \<Rightarrow> string \<Rightarrow> nat \<Rightarrow> jsval \<Rightarrow> error + jsval" where
  "rangeEntry R attr i r =
     (if truthy r then
        bindE (getProp R r attr) (\<lambda>v.
          if v \<noteq> Undefined then Inr v
          else bindE (getProp R r ''data'') (\<lambda>d.
            if truthy d then
              bindE (getProp R d attr) (\<lambda>w. if w \<noteq> Undefined then Inr w else Inr (Num (int i)))
            else Inr (Num (int i))))
      else Inr (Num (int i)))"

definition rangeHelper :: "realm \<Rightarrow> jsval \<Rightarrow> string \<Rightarrow> error + jsval" where
  "rangeHelper R pt attr =
     (case pt of
        Arr rs \<Rightarrow>
          bindE (mapE (\<lambda>(i, r). rangeEntry R attr i r) (enumerate 0 rs)) (\<lambda>ys. Inr (Arr ys))
      | _ \<Rightarrow>
          bindE (getProp R pt ''map'')
            (\<lambda>m. case m of Fn name \<Rightarrow> callAsMap R name pt attr | _ \<Rightarrow> Inl TypeError))"

text \<open>
  \<^verbatim>\<open>getColor\<close> (lines 46-88). The destructuring with defaults (lines 58-63) gives
  \<open>attributeOf\<close>, \<open>isMultiSeriesOf\<close> and \<open>scaleOf\<close>; \<open>namedScheme\<close> is the lookup of a
  string in the schemes table (lines 65-67), \<open>keyOf\<close> the key of line 80. The second
  argument of \<open>getColor\<close> is the schemes table. The three calls
  \<^verbatim>\<open>scale(colorScheme).domain(domain)(key)\<close> are one application of the scale.
\<close>

definition attributeOf :: "props \<Rightarrow> string" where
  "attributeOf p = (case attribute p of None \<Rightarrow> ''key'' | Some a \<Rightarrow> a)"

definition isMultiSeriesOf :: "props \<Rightarrow> bool" where
  "isMultiSeriesOf p = (case isMultiSeries p of None \<Rightarrow> False | Some b \<Rightarrow> b)"

definition scaleOf :: "props \<Rightarrow> scaleFn" where
  "scaleOf p = (case scale p of None \<Rightarrow> scaleOrdinal | Some s \<Rightarrow> s)"

definition namedScheme :: "(string \<Rightarrow> colorSchemeType) \<Rightarrow> colorSchemeType \<Rightarrow> colorSchemeType" where
  "namedScheme table c =
     (case c of
        Value (Str name) \<Rightarrow> if truthyScheme (table name) then table name else Value (Str name)
      | _ \<Rightarrow> c)"

definition keyOf :: "realm \<Rightarrow> props \<Rightarrow> error + jsval" where
  "keyOf R p = (if key p \<noteq> Undefined then Inr (key p) else getProp R (point p) (attributeOf p))"

definition getColor :: "realm \<Rightarrow> (string \<Rightarrow> colorSchemeType) \<Rightarrow> props \<Rightarrow> error + jsval" where
  "getColor R table p =
     (case namedScheme table (colorScheme p) of
        Value (Arr palette) \<Rightarrow>
          bindE
            (if truthy (domain p) then Inr (domain p)
             else
               bindE
                 (case data p of
                    Arr series \<Rightarrow>
                      if isMultiSeriesOf p then
                        bindE (maxIndex series
                                 (\<lambda>d. bindE (getProp R d ''data'') (\<lambda>x. getProp R x ''length'')))
                          (\<lambda>maxIdx. getProp R (arrayAt series maxIdx) ''data'')
                      else Inr (Arr series)
                  | d \<Rightarrow> Inr d)
                 (\<lambda>d. rangeHelper R d (attributeOf p)))
            (\<lambda>dmn. bindE (keyOf R p) (\<lambda>k. scaleOf p palette dmn k))
      | Callback f \<Rightarrow> f (point p) (index p) (active p)
      | Value (Fn name) \<Rightarrow> callFn R name (point p) (index p) (active p)
      | Value v \<Rightarrow> Inr v)"

text \<open>
  \<^verbatim>\<open>getValueScale\<close> (lines 99-126). \<open>valueDomainOf\<close> is the \<^verbatim>\<open>extent(uniqueBy(...))\<close>
  computed when the scale is built, \<open>valueScale\<close> the function that is returned.
\<close>

definition valueDomainOf :: "libs \<Rightarrow> jsval \<Rightarrow> error + jsval" where
  "valueDomainOf L dat =
     bindE (uniqueBy L dat (\<lambda>d. getProp (realm L) d ''data'') (\<lambda>d. getProp (realm L) d ''value''))
       (extent L)"

definition valueScale ::
  "libs \<Rightarrow> jsval \<Rightarrow> colorSchemeType \<Rightarrow> jsval \<Rightarrow> jsval \<Rightarrow> error + jsval" where
  "valueScale L valueDomain cs emptyColor pt =
     (if pt = Undefined \<or> pt = Null then Inr emptyColor
      else getColor (realm L) (schemes L)
             \<lparr> colorScheme = cs, point = Undefined, data = Undefined, index = Undefined,
               active = Undefined, scale = Some (scaleQuantile L), domain = valueDomain,
               key = pt, attribute = None, isMultiSeries = None \<rparr>)"

definition getValueScale ::
  "libs \<Rightarrow> jsval \<Rightarrow> colorSchemeType \<Rightarrow> jsval \<Rightarrow> error + (jsval \<Rightarrow> error + jsval)" where
  "getValueScale L dat cs emptyColor =
     bindE (valueDomainOf L dat) (\<lambda>valueDomain. Inr (valueScale L valueDomain cs emptyColor))"

text \<open>\<^verbatim>\<open>getColorSchemeForProperty\<close> (lines 152-170).\<close>

definition getColorSchemeForProperty ::
  "realm \<Rightarrow> colorSchemeType \<Rightarrow> string \<Rightarrow> colorSchemeType" where
  "getColorSchemeForProperty R cs colorSchemeProperty =
     (case cs of
        Value (Arr items) \<Rightarrow>
          Value (Arr (map (\<lambda>schemeItem.
                            if typeofObject schemeItem
                            then lookupProp R schemeItem colorSchemeProperty
                            else schemeItem) items))
      | c \<Rightarrow> c)"

text \<open>
  \<^verbatim>\<open>createColorSchemeValueScales\<close> (lines 184-212). \<open>setEach\<close> is the \<^verbatim>\<open>forEach\<close>
  that fills the map; it stops at the first exception.
\<close>

fun setEach ::
  "(string \<Rightarrow> error + 'v) \<Rightarrow> string list \<Rightarrow> (string \<times> 'v) list \<Rightarrow> error + (string \<times> 'v) list" where
  "setEach f [] m = Inr m"
| "setEach f (k # ks) m = bindE (f k) (\<lambda>v. setEach f ks (mapSet k v m))"

definition isColorSchemeObjectArray :: "colorSchemeType \<Rightarrow> bool" where
  "isColorSchemeObjectArray cs =
     (case cs of Value (Arr (x # xs)) \<Rightarrow> typeofObject x | _ \<Rightarrow> False)"

definition createColorSchemeValueScales ::
  "libs \<Rightarrow> jsval \<Rightarrow> colorSchemeType \<Rightarrow> jsval \<Rightarrow> error + (string \<times> (jsval \<Rightarrow> error + jsval)) list" where
  "createColorSchemeValueScales L dat cs emptyColor =
     (if isColorSchemeObjectArray cs then
        bindE (case cs of
                 Value (Arr items) \<Rightarrow> bindE (mapE objectKeys items) (\<lambda>kss. Inr (concat kss))
               | _ \<Rightarrow> Inr [])
          (\<lambda>ks. setEach (\<lambda>k. getValueScale L dat
                                 (getColorSchemeForProperty (realm L) cs k) emptyColor)
                   (uniqueInOrder ks) [])
      else
        bindE (getValueScale L dat cs emptyColor) (\<lambda>vs. Inr (mapSet ''fill'' vs [])))"

section \<open>What the specification says, and sample inputs\<close>

text \<open>
  The domain entry of element \<open>r\<close> at position \<open>i\<close> in the words of the specification:
  the element's attribute when it is defined, else the attribute of the element's
  nested data when that defines it, else the index.
\<close>

definition definedProp :: "realm \<Rightarrow> jsval \<Rightarrow> string \<Rightarrow> bool" where
  "definedProp R v k = (case getProp R v k of Inr w \<Rightarrow> w \<noteq> Undefined | Inl e \<Rightarrow> False)"

definition domainEntry_spec :: "realm \<Rightarrow> string \<Rightarrow> nat \<Rightarrow> jsval \<Rightarrow> jsval" where
  "domainEntry_spec R attr i r =
     (if definedProp R r attr then lookupProp R r attr
      else if definedProp R (lookupProp R r ''data'') attr
      then lookupProp R (lookupProp R r ''data'') attr
      else Num (int i))"

text \<open>
  The same with the two truthiness tests the code makes: on the element, and on its
  nested data.
\<close>

definition domainEntry :: "realm \<Rightarrow> string \<Rightarrow> nat \<Rightarrow> jsval \<Rightarrow> jsval" where
  "domainEntry R attr i r =
     (if truthy r \<and> lookupProp R r attr \<noteq> Undefined then lookupProp R r attr
      else if truthy r \<and> truthy (lookupProp R r ''data'')
              \<and> lookupProp R (lookupProp R r ''data'') attr \<noteq> Undefined
      then lookupProp R (lookupProp R r ''data'') attr
      else Num (int i))"

text \<open>
  The elements on which the two tests change nothing: the element is truthy, null or
  undefined, and so is its nested data. Every object, array and function is truthy.
\<close>

definition plainElement :: "realm \<Rightarrow> jsval \<Rightarrow> bool" where
  "plainElement R r =
     ((truthy r \<or> nullish r)
      \<and> (truthy (lookupProp R r ''data'') \<or> nullish (lookupProp R r ''data'')))"

text \<open>The element count of a series: the length of its \<^verbatim>\<open>data\<close> field.\<close>

definition dataLength :: "realm \<Rightarrow> jsval \<Rightarrow> nat" where
  "dataLength R s = (case lookupProp R s ''data'' of Arr items \<Rightarrow> length items | _ \<Rightarrow> 0)"

definition isSeries :: "realm \<Rightarrow> jsval \<Rightarrow> bool" where
  "isSeries R s = (case lookupProp R s ''data'' of Arr items \<Rightarrow> True | _ \<Rightarrow> False)"




definition paletteItems :: "colorSchemeType \<Rightarrow> jsval list" where
  "paletteItems cs = (case cs of Value (Arr items) \<Rightarrow> items | _ \<Rightarrow> [])"



text \<open>Calling a function that was returned: \<open>callWith x f\<close> is \<^verbatim>\<open>f(x)\<close>.\<close>

definition callWith :: "jsval \<Rightarrow> (jsval \<Rightarrow> error + jsval) \<Rightarrow> error + jsval" where
  "callWith x f = f x"

text \<open>
  A sample realm: the prototypes of ECMAScript 5.1 with their methods. The
  \<^verbatim>\<open>constructor\<close> members, the \<^verbatim>\<open>length\<close> and \<^verbatim>\<open>name\<close> of functions and everything that
  later editions added are left out. A method is named after the prototype that holds
  it. Called without a receiver, \<^verbatim>\<open>Object.prototype.toString\<close> returns
  \<^verbatim>\<open>[object Undefined]\<close>, \<^verbatim>\<open>Object.prototype.isPrototypeOf\<close> returns false when its
  argument is not an object, and every other call of these methods throws a TypeError.
  Only arrays inherit \<^verbatim>\<open>map\<close> here, so on data that holds no function of its own
  \<open>callAsMap\<close> is never reached; it is set to throw.
\<close>

definition objectProto :: "string list" where
  "objectProto =
     [''toString'', ''toLocaleString'', ''valueOf'', ''hasOwnProperty'', ''isPrototypeOf'',
      ''propertyIsEnumerable'']"

fun protoName :: "jsval \<Rightarrow> string" where
  "protoName (Arr xs) = ''Array''"
| "protoName (Str s) = ''String''"
| "protoName (Num n) = ''Number''"
| "protoName (Bool b) = ''Boolean''"
| "protoName (Fn n) = ''Function''"
| "protoName v = ''Object''"

fun protoMethods :: "jsval \<Rightarrow> string list" where
  "protoMethods (Arr xs) =
     [''toString'', ''toLocaleString'', ''concat'', ''join'', ''pop'', ''push'', ''reverse'',
      ''shift'', ''slice'', ''sort'', ''splice'', ''unshift'', ''indexOf'', ''lastIndexOf'',
      ''every'', ''some'', ''forEach'', ''map'', ''filter'', ''reduce'', ''reduceRight'']"
| "protoMethods (Str s) =
     [''toString'', ''valueOf'', ''charAt'', ''charCodeAt'', ''concat'', ''indexOf'',
      ''lastIndexOf'', ''localeCompare'', ''match'', ''replace'', ''search'', ''slice'',
      ''split'', ''substring'', ''toLowerCase'', ''toLocaleLowerCase'', ''toUpperCase'',
      ''toLocaleUpperCase'', ''trim'']"
| "protoMethods (Num n) =
     [''toString'', ''toLocaleString'', ''valueOf'', ''toFixed'', ''toExponential'',
      ''toPrecision'']"
| "protoMethods (Bool b) = [''toString'', ''valueOf'']"
| "protoMethods (Fn n) = [''toString'', ''apply'', ''call'', ''bind'']"
| "protoMethods v = objectProto"

definition sampleInherited :: "jsval \<Rightarrow> string \<Rightarrow> jsval" where
  "sampleInherited v k =
     (if k \<in> set (protoMethods v) then Fn (protoName v @ ''.prototype.'' @ k)
      else if k \<in> set objectProto then Fn (''Object.prototype.'' @ k)
      else Undefined)"

definition sampleCallFn :: "string \<Rightarrow> jsval \<Rightarrow> jsval \<Rightarrow> jsval \<Rightarrow> error + jsval" where
  "sampleCallFn name x y z =
     (if name = ''Object.prototype.toString'' then Inr (Str ''[object Undefined]'')
      else if name = ''Object.prototype.isPrototypeOf''
              \<and> \<not> (typeofObject x \<and> x \<noteq> Null) \<and> \<not> isFunction x
      then Inr (Bool False)
      else Inl TypeError)"

definition sampleCallAsMap :: "string \<Rightarrow> jsval \<Rightarrow> string \<Rightarrow> error + jsval" where
  "sampleCallAsMap name v attr = Inl TypeError"

definition sampleRealm :: realm where
  "sampleRealm =
     \<lparr> inherited = sampleInherited, callFn = sampleCallFn, callAsMap = sampleCallAsMap \<rparr>"

text \<open>
  Modelled from the spec: the schemes table (\<^verbatim>\<open>./schemes\<close>) is not in the source
  file. The spec has "a string key naming a predefined named scheme" looked up "by
  string key into a predefined table", a module-level singleton. \<open>objectLiteral\<close> is
  such a table written as an object literal: a name reads the entry it owns, or else
  what a plain object inherits. The sample table has one scheme.
\<close>

definition objectLiteral :: "realm \<Rightarrow> (string \<times> jsval) list \<Rightarrow> string \<Rightarrow> colorSchemeType" where
  "objectLiteral R entries name = Value (lookupProp R (Obj entries) name)"

definition sampleEntries :: "(string \<times> jsval) list" where
  "sampleEntries = [(''cybertron'', Arr [Str ''#2d60e8'', Str ''#26efb5'', Str ''#c7f0e1''])]"

definition sampleSchemes :: "string \<Rightarrow> colorSchemeType" where
  "sampleSchemes = objectLiteral sampleRealm sampleEntries"

text \<open>
  Modelled from the spec: the other helpers that are not in the source file, for the
  sample inputs below. \<^verbatim>\<open>uniqueBy\<close> is "a de-duplication helper over a dataset keyed by
  a projection function", "retaining one representative value per group"; \<^verbatim>\<open>extent\<close>
  is "a statistics helper providing extent (min/max) computation"; the quantile scale
  "bins continuous values into ranked groups over a numeric domain, each group mapped
  to one output value" (thresholds by linear interpolation between the sorted domain
  values, as d3 does, in exact arithmetic).
\<close>

fun uniqueByLoop ::
  "(jsval \<Rightarrow> error + jsval) \<Rightarrow> (jsval \<Rightarrow> error + jsval) \<Rightarrow> jsval list \<Rightarrow> jsval list \<Rightarrow> jsval list
     \<Rightarrow> error + jsval list" where
  "uniqueByLoop grp val [] seen acc = Inr acc"
| "uniqueByLoop grp val (d # ds) seen acc =
     bindE (grp d) (\<lambda>g.
       if g \<in> set seen then uniqueByLoop grp val ds seen acc
       else bindE (val d) (\<lambda>v. uniqueByLoop grp val ds (seen @ [g]) (acc @ [v])))"

definition uniqueBy_spec ::
  "jsval \<Rightarrow> (jsval \<Rightarrow> error + jsval) \<Rightarrow> (jsval \<Rightarrow> error + jsval) \<Rightarrow> error + jsval" where
  "uniqueBy_spec dat grp val =
     bindE (iterate dat) (\<lambda>ds. bindE (uniqueByLoop grp val ds [] []) (\<lambda>vs. Inr (Arr vs)))"

fun numbersOf :: "jsval list \<Rightarrow> int list" where
  "numbersOf [] = []"
| "numbersOf (Num n # vs) = n # numbersOf vs"
| "numbersOf (v # vs) = numbersOf vs"

definition extent_spec :: "jsval \<Rightarrow> error + jsval" where
  "extent_spec vals =
     bindE (iterate vals) (\<lambda>vs.
       Inr (case numbersOf vs of
              [] \<Rightarrow> Arr [Undefined, Undefined]
            | n # ns \<Rightarrow> Arr [Num (fold min ns n), Num (fold max ns n)]))"

definition quantileBin :: "int list \<Rightarrow> nat \<Rightarrow> int \<Rightarrow> nat" where
  "quantileBin vs n x =
     length (filter (\<lambda>i. let h = (length vs - 1) * i;
                             v0 = vs ! (h div n);
                             v1 = vs ! min (length vs - 1) (Suc (h div n))
                         in v0 * int n + (v1 - v0) * int (h mod n) \<le> x * int n)
                    [1..<n])"

definition scaleQuantile_spec :: scaleFn where
  "scaleQuantile_spec palette dmn k =
     bindE (iterate dmn) (\<lambda>ds.
       Inr (case k of
              Num x \<Rightarrow>
                if palette = [] \<or> numbersOf ds = [] then Undefined
                else palette ! quantileBin (sort (numbersOf ds)) (length palette) x
            | _ \<Rightarrow> Undefined))"

definition sampleLibs :: libs where
  "sampleLibs =
     \<lparr> realm = sampleRealm, schemes = sampleSchemes, scaleQuantile = scaleQuantile_spec,
       uniqueBy = uniqueBy_spec, extent = extent_spec \<rparr>"

text \<open>
  Sample arguments: a palette, a three-element series, two series of lengths 2 and 5,
  a heat-map dataset, palettes of style objects, of mixed entries and with a null
  entry, a callback, and a scale that hands back the domain it is given.
\<close>

definition rgb :: "jsval list" where
  "rgb = [Str ''red'', Str ''green'', Str ''blue'']"

definition abc :: jsval where
  "abc = Arr [Obj [(''key'', Str ''a'')], Obj [(''key'', Str ''b'')], Obj [(''key'', Str ''c'')]]"

definition unset :: props where
  "unset =
     \<lparr> colorScheme = Value Undefined, point = Undefined, data = Undefined, index = Undefined,
       active = Undefined, scale = None, domain = Undefined, key = Undefined,
       attribute = None, isMultiSeries = None \<rparr>"

definition twoAndFive :: jsval where
  "twoAndFive =
     Arr [Obj [(''key'', Str ''s1''),
               (''data'', Arr [Obj [(''key'', Str ''a'')], Obj [(''key'', Str ''b'')]])],
          Obj [(''key'', Str ''s2''),
               (''data'', Arr [Obj [(''key'', Str ''p'')], Obj [(''key'', Str ''q'')],
                               Obj [(''key'', Str ''r'')], Obj [(''key'', Str ''s'')],
                               Obj [(''key'', Str ''t'')]])]]"

definition heat :: jsval where
  "heat =
     Arr [Obj [(''data'', Str ''mon''), (''value'', Num 3)],
          Obj [(''data'', Str ''tue''), (''value'', Num 7)],
          Obj [(''data'', Str ''mon''), (''value'', Num 5)]]"




definition indexColor :: "jsval \<Rightarrow> jsval \<Rightarrow> jsval \<Rightarrow> error + jsval" where
  "indexColor pt i act = Inr (if i = Num 0 then Str ''red'' else Str ''blue'')"

definition domainProbe :: scaleFn where
  "domainProbe palette dmn k = Inr dmn"

section \<open>Auxiliary facts\<close>

lemma bindE_Inr [simp]: "bindE (Inr x) f = f x"
  by (simp add: bindE_def)

lemma bindE_Inl [simp]: "bindE (Inl e) f = Inl e"
  by (simp add: bindE_def)

lemma mapE_total: "(\<And>x. x \<in> set xs \<Longrightarrow> f x = Inr (g x)) \<Longrightarrow> mapE f xs = Inr (map g xs)"
  by (induction xs) simp_all

lemma mapE_fails: "x \<in> set xs \<Longrightarrow> f x = Inl e \<Longrightarrow> \<exists>e'. mapE f xs = Inl e'"
proof (induction xs)
  case Nil
  then show ?case by simp
next
  case (Cons y ys)
  show ?case
  proof (cases "f y")
    case (Inl e0)
    then show ?thesis by simp
  next
    case (Inr v)
    then have "x \<in> set ys" using Cons.prems by auto
    then obtain e' where "mapE f ys = Inl e'" using Cons.IH Cons.prems(2) by blast
    then show ?thesis using Inr by simp
  qed
qed

lemma truthy_not_nullish: "truthy v \<Longrightarrow> \<not> nullish v"
  by (cases v) simp_all

lemma getProp_not_nullish: "\<not> nullish v \<Longrightarrow> getProp R v k = Inr (lookupProp R v k)"
  by (simp add: getProp_def)

lemma getProp_truthy: "truthy v \<Longrightarrow> getProp R v k = Inr (lookupProp R v k)"
  by (simp add: getProp_not_nullish truthy_not_nullish)

lemma lookupProp_nullish: "nullish v \<Longrightarrow> lookupProp R v k = Undefined"
  by (cases v) simp_all

lemma rangeEntry_total: "rangeEntry R attr i r = Inr (domainEntry R attr i r)"
  by (simp add: rangeEntry_def domainEntry_def getProp_truthy)

lemma rangeHelper_Arr:
  "rangeHelper R (Arr rs) attr
     = Inr (Arr (map (\<lambda>(i, r). domainEntry R attr i r) (enumerate 0 rs)))"
proof -
  have "mapE (\<lambda>(i, r). rangeEntry R attr i r) (enumerate 0 rs)
        = Inr (map (\<lambda>(i, r). domainEntry R attr i r) (enumerate 0 rs))"
    by (rule mapE_total) (auto simp: rangeEntry_total)
  then show ?thesis
    by (simp add: rangeHelper_def)
qed

lemma rangeHelper_nullish: "nullish v \<Longrightarrow> rangeHelper R v attr = Inl TypeError"
  by (cases v) (simp_all add: rangeHelper_def getProp_def)

lemma rangeHelper_length:
  "\<exists>dmn. rangeHelper R (Arr rs) attr = Inr (Arr dmn) \<and> length dmn = length rs
     \<and> (\<forall>i < length rs. dmn ! i = domainEntry R attr i (rs ! i))"
  by (simp add: rangeHelper_Arr nth_enumerate_eq)







lemma maxIndexLoop_num:
  "maxIndexLoop (map (\<lambda>n. Num (int n)) ns) i (Num (int m)) mi = r \<Longrightarrow>
     (r = mi \<and> (\<forall>n \<in> set ns. n \<le> m)) \<or>
     (\<exists>j < length ns. r = int (i + j) \<and> m < ns ! j
        \<and> (\<forall>l < length ns. ns ! l \<le> ns ! j) \<and> (\<forall>l < j. ns ! l < ns ! j))"
proof (induction ns arbitrary: i m mi)
  case Nil
  then show ?case by simp
next
  case (Cons n ns)
  show ?case
  proof (cases "m < n")
    case True
    then have rec: "maxIndexLoop (map (\<lambda>n. Num (int n)) ns) (Suc i) (Num (int n)) (int i) = r"
      using Cons.prems by simp
    from Cons.IH [OF rec] show ?thesis
    proof
      assume a: "r = int i \<and> (\<forall>x \<in> set ns. x \<le> n)"
      have "\<forall>l < length (n # ns). (n # ns) ! l \<le> (n # ns) ! 0"
        using a by (auto simp: nth_Cons split: nat.splits)
      then have "0 < length (n # ns) \<and> r = int (i + 0) \<and> m < (n # ns) ! 0
            \<and> (\<forall>l < length (n # ns). (n # ns) ! l \<le> (n # ns) ! 0)
            \<and> (\<forall>l < 0. (n # ns) ! l < (n # ns) ! 0)"
        using a True by simp
      then show ?thesis by blast
    next
      assume "\<exists>j < length ns. r = int (Suc i + j) \<and> n < ns ! j
        \<and> (\<forall>l < length ns. ns ! l \<le> ns ! j) \<and> (\<forall>l < j. ns ! l < ns ! j)"
      then obtain j where j: "j < length ns" "r = int (Suc i + j)" "n < ns ! j"
        "\<forall>l < length ns. ns ! l \<le> ns ! j" "\<forall>l < j. ns ! l < ns ! j" by blast
      have "Suc j < length (n # ns) \<and> r = int (i + Suc j) \<and> m < (n # ns) ! Suc j
            \<and> (\<forall>l < length (n # ns). (n # ns) ! l \<le> (n # ns) ! Suc j)
            \<and> (\<forall>l < Suc j. (n # ns) ! l < (n # ns) ! Suc j)"
        using j True by (auto simp: nth_Cons split: nat.splits)
      then show ?thesis by blast
    qed
  next
    case False
    then have rec: "maxIndexLoop (map (\<lambda>n. Num (int n)) ns) (Suc i) (Num (int m)) mi = r"
      using Cons.prems by simp
    from Cons.IH [OF rec] show ?thesis
    proof
      assume "r = mi \<and> (\<forall>x \<in> set ns. x \<le> m)"
      then show ?thesis using False by auto
    next
      assume "\<exists>j < length ns. r = int (Suc i + j) \<and> m < ns ! j
        \<and> (\<forall>l < length ns. ns ! l \<le> ns ! j) \<and> (\<forall>l < j. ns ! l < ns ! j)"
      then obtain j where j: "j < length ns" "r = int (Suc i + j)" "m < ns ! j"
        "\<forall>l < length ns. ns ! l \<le> ns ! j" "\<forall>l < j. ns ! l < ns ! j" by blast
      have "Suc j < length (n # ns) \<and> r = int (i + Suc j) \<and> m < (n # ns) ! Suc j
            \<and> (\<forall>l < length (n # ns). (n # ns) ! l \<le> (n # ns) ! Suc j)
            \<and> (\<forall>l < Suc j. (n # ns) ! l < (n # ns) ! Suc j)"
        using j False by (auto simp: nth_Cons split: nat.splits)
      then show ?thesis by blast
    qed
  qed
qed

lemma maxIndexLoop_first_max:
  assumes "ns \<noteq> []"
  shows "\<exists>i < length ns. maxIndexLoop (map (\<lambda>n. Num (int n)) ns) 0 Undefined (- 1) = int i
           \<and> (\<forall>l < length ns. ns ! l \<le> ns ! i) \<and> (\<forall>l < i. ns ! l < ns ! i)"
proof -
  obtain n rest where ns: "ns = n # rest" using assms by (cases ns) auto
  define r where "r = maxIndexLoop (map (\<lambda>n. Num (int n)) rest) (Suc 0) (Num (int n)) 0"
  have top: "maxIndexLoop (map (\<lambda>n. Num (int n)) ns) 0 Undefined (- 1) = r"
    by (simp add: ns r_def)
  have "(r = 0 \<and> (\<forall>x \<in> set rest. x \<le> n)) \<or>
     (\<exists>j < length rest. r = int (Suc 0 + j) \<and> n < rest ! j
        \<and> (\<forall>l < length rest. rest ! l \<le> rest ! j) \<and> (\<forall>l < j. rest ! l < rest ! j))"
    using maxIndexLoop_num [of rest "Suc 0" n 0 r] by (simp add: r_def)
  then show ?thesis
  proof
    assume a: "r = 0 \<and> (\<forall>x \<in> set rest. x \<le> n)"
    have "\<forall>l < length ns. ns ! l \<le> ns ! 0"
      using a by (auto simp: ns nth_Cons split: nat.splits)
    then have "0 < length ns \<and> maxIndexLoop (map (\<lambda>n. Num (int n)) ns) 0 Undefined (- 1) = int 0
           \<and> (\<forall>l < length ns. ns ! l \<le> ns ! 0) \<and> (\<forall>l < 0. ns ! l < ns ! 0)"
      using a top by (simp add: ns)
    then show ?thesis by blast
  next
    assume "\<exists>j < length rest. r = int (Suc 0 + j) \<and> n < rest ! j
        \<and> (\<forall>l < length rest. rest ! l \<le> rest ! j) \<and> (\<forall>l < j. rest ! l < rest ! j)"
    then obtain j where j: "j < length rest" "r = int (Suc 0 + j)" "n < rest ! j"
        "\<forall>l < length rest. rest ! l \<le> rest ! j" "\<forall>l < j. rest ! l < rest ! j" by blast
    have "Suc j < length ns \<and> maxIndexLoop (map (\<lambda>n. Num (int n)) ns) 0 Undefined (- 1) = int (Suc j)
           \<and> (\<forall>l < length ns. ns ! l \<le> ns ! Suc j) \<and> (\<forall>l < Suc j. ns ! l < ns ! Suc j)"
      using j top by (auto simp: ns nth_Cons split: nat.splits)
    then show ?thesis by blast
  qed
qed

lemma namedScheme_literal:
  "\<not> isArray v \<Longrightarrow> (\<And>name. v = Str name \<Longrightarrow> \<not> truthyScheme (table name))
   \<Longrightarrow> namedScheme table (Value v) = Value v"
  by (cases v) (simp_all add: namedScheme_def)

lemma namedScheme_Callback: "namedScheme table (Callback f) = Callback f"
  by (simp add: namedScheme_def)

lemma namedScheme_Arr: "namedScheme table (Value (Arr xs)) = Value (Arr xs)"
  by (simp add: namedScheme_def)

section \<open>Literal and callback colour schemes\<close>

text \<open>
  C2, as the code has it. A colour scheme that is not an array, not a function and not
  a string for which the read of the schemes table gives a truthy value (which is what
  line 65 tests) is returned unchanged by \<open>getColor\<close>, whatever the other arguments
  are.
\<close>

theorem getColor_literal_unchanged:
  assumes "colorScheme p = Value v"
    and "\<not> isArray v"
    and "\<not> isFunction v"
    and "\<forall>name. v = Str name \<longrightarrow> \<not> truthyScheme (table name)"
  shows "getColor R table p = Inr v"
proof -
  have "namedScheme table (colorScheme p) = Value v"
    using assms by (simp add: namedScheme_literal)
  then show ?thesis
    using assms(2,3) by (cases v) (simp_all add: getColor_def)
qed

theorem getColor_literal_unchanged_witness:
  "colorScheme (unset\<lparr>colorScheme := Value (Str ''#ff0000''), data := abc, key := Num 3\<rparr>)
     = Value (Str ''#ff0000'')
   \<and> \<not> isArray (Str ''#ff0000'')
   \<and> \<not> isFunction (Str ''#ff0000'')
   \<and> \<not> truthyScheme (sampleSchemes ''#ff0000'')
   \<and> getColor sampleRealm sampleSchemes
        (unset\<lparr>colorScheme := Value (Str ''#ff0000''), data := abc, key := Num 3\<rparr>)
     = Inr (Str ''#ff0000'')"
proof -
  have t: "\<not> truthyScheme (sampleSchemes ''#ff0000'')"
    by (simp add: sampleSchemes_def objectLiteral_def sampleEntries_def sampleRealm_def
        sampleInherited_def objectProto_def)
  show ?thesis
    using t getColor_literal_unchanged
      [of "unset\<lparr>colorScheme := Value (Str ''#ff0000''), data := abc, key := Num 3\<rparr>"
          "Str ''#ff0000''" sampleSchemes sampleRealm]
    by simp
qed

text \<open>
  C2, as the specification states it, fails on a string that names no scheme but a
  member that the table object inherits: line 65 reads \<^verbatim>\<open>schemes['toString']\<close>, finds
  \<^verbatim>\<open>Object.prototype.toString\<close>, which is truthy, and line 84 calls it.
\<close>

theorem getColor_inherited_name:
  "getColor sampleRealm sampleSchemes (unset\<lparr>colorScheme := Value (Str ''toString'')\<rparr>)
     = Inr (Str ''[object Undefined]'')
   \<and> ''toString'' \<notin> set (map fst sampleEntries)
   \<and> \<not> isArray (Str ''toString'')
   \<and> \<not> isFunction (Str ''toString'')"
  by (simp add: getColor_def namedScheme_def sampleSchemes_def objectLiteral_def
      sampleEntries_def sampleRealm_def sampleInherited_def objectProto_def sampleCallFn_def
      unset_def)

text \<open>
  C3. For a callback colour scheme \<open>getColor\<close> is the callback applied to \<open>point\<close>,
  \<open>index\<close> and \<open>active\<close>: its value when it returns one, its exception when it throws.
  No other argument and no entry of the schemes table takes part.
\<close>

theorem getColor_callback:
  assumes "colorScheme p = Callback f"
  shows "getColor R table p = f (point p) (index p) (active p)"
  using assms by (simp add: getColor_def namedScheme_Callback)

theorem getColor_callback_witness:
  "colorScheme (unset\<lparr>colorScheme := Callback indexColor, index := Num 0, data := abc\<rparr>)
     = Callback indexColor
   \<and> getColor sampleRealm sampleSchemes
        (unset\<lparr>colorScheme := Callback indexColor, index := Num 0, data := abc\<rparr>)
     = Inr (Str ''red'')"
  using getColor_callback
    [of "unset\<lparr>colorScheme := Callback indexColor, index := Num 0, data := abc\<rparr>"
        indexColor sampleRealm sampleSchemes]
  by (simp add: indexColor_def unset_def)

section \<open>Palettes\<close>

text \<open>
  C6. With the palette red, green, blue, the data a, b, c, the default attribute, no
  domain, no key and the default ordinal scale, the domain derived from the data is
  a, b, c in this order and the point with key b gets green.
\<close>

theorem getColor_palette_example:
  "rangeHelper R abc ''key'' = Inr (Arr [Str ''a'', Str ''b'', Str ''c''])
   \<and> getColor R table
       \<lparr> colorScheme = Value (Arr rgb), point = Obj [(''key'', Str ''b'')], data = abc,
         index = i, active = act, scale = None, domain = Undefined, key = Undefined,
         attribute = None, isMultiSeries = None \<rparr>
     = Inr (Str ''green'')"
  by (simp add: getColor_def namedScheme_def rangeHelper_Arr abc_def rgb_def domainEntry_def
      enumerate_eq_zip attributeOf_def isMultiSeriesOf_def scaleOf_def keyOf_def getProp_def
      scaleOrdinal_def iterate_def uniqueInOrder_def insertNew_def)

section \<open>Multi-series data\<close>

lemma isSeries_data:
  assumes "isSeries R s"
  obtains items where "lookupProp R s ''data'' = Arr items" and "\<not> nullish s"
    and "dataLength R s = length items"
proof -
  from assms obtain items where d: "lookupProp R s ''data'' = Arr items"
    by (auto simp: isSeries_def split: jsval.splits)
  have "\<not> nullish s" using d by (cases s) simp_all
  moreover have "dataLength R s = length items" using d by (simp add: dataLength_def)
  ultimately show thesis using d that by blast
qed

lemma series_length_accessor:
  assumes "isSeries R s"
  shows "bindE (getProp R s ''data'') (\<lambda>x. getProp R x ''length'')
         = Inr (Num (int (dataLength R s)))"
proof -
  from assms obtain items where d: "lookupProp R s ''data'' = Arr items" "\<not> nullish s"
    "dataLength R s = length items" by (rule isSeries_data)
  then show ?thesis by (simp add: getProp_def)
qed

lemma longest_series:
  assumes "series \<noteq> []" and "list_all (isSeries R) series"
  shows "\<exists>i < length series.
           (\<forall>j < length series. dataLength R (series ! j) \<le> dataLength R (series ! i))
         \<and> (\<forall>j < i. dataLength R (series ! j) < dataLength R (series ! i))
         \<and> bindE (maxIndex series (\<lambda>d. bindE (getProp R d ''data'') (\<lambda>x. getProp R x ''length'')))
                  (\<lambda>maxIdx. getProp R (arrayAt series maxIdx) ''data'')
             = Inr (lookupProp R (series ! i) ''data'')"
proof -
  let ?acc = "\<lambda>d. bindE (getProp R d ''data'') (\<lambda>x. getProp R x ''length'')"
  let ?ns = "map (dataLength R) series"
  have "mapE ?acc series = Inr (map (\<lambda>s. Num (int (dataLength R s))) series)"
    by (rule mapE_total) (use assms(2) in \<open>simp add: list_all_iff series_length_accessor\<close>)
  then have acc: "mapE ?acc series = Inr (map (\<lambda>n. Num (int n)) ?ns)"
    by (simp add: comp_def)
  have "?ns \<noteq> []" using assms(1) by simp
  from maxIndexLoop_first_max [OF this]
  obtain i where i: "i < length series"
    "maxIndexLoop (map (\<lambda>n. Num (int n)) ?ns) 0 Undefined (- 1) = int i"
    "\<forall>l < length series. dataLength R (series ! l) \<le> dataLength R (series ! i)"
    "\<forall>l < i. dataLength R (series ! l) < dataLength R (series ! i)"
    by auto
  have mi: "maxIndex series ?acc = Inr (int i)"
    using acc i(2) by (simp add: maxIndex_def)
  have "isSeries R (series ! i)" using assms(2) i(1) by (simp add: list_all_length)
  then have "\<not> nullish (series ! i)" by (rule isSeries_data)
  then have "getProp R (arrayAt series (int i)) ''data'' = Inr (lookupProp R (series ! i) ''data'')"
    using i(1) by (simp add: arrayAt_def getProp_def)
  then show ?thesis using mi i by auto
qed

text \<open>
  C5. With an array colour scheme, no domain, \<^verbatim>\<open>isMultiSeries\<close> true and multi-series
  data (a non-empty array of series, each with an array in its \<^verbatim>\<open>data\<close> field), the
  domain handed to the scale is derived from one inner series only: the series at the
  first position where the element count is greatest. It has one entry per element of
  that series. For series of lengths 2 and 5 the domain has length 5.
\<close>

theorem getColor_multiSeries_longest:
  assumes "colorScheme p = Value (Arr palette)"
    and "\<not> truthy (domain p)"
    and "isMultiSeries p = Some True"
    and "data p = Arr series" and "series \<noteq> []" and "list_all (isSeries R) series"
  shows "\<exists>i dmn. i < length series
           \<and> (\<forall>j < length series. dataLength R (series ! j) \<le> dataLength R (series ! i))
           \<and> (\<forall>j < i. dataLength R (series ! j) < dataLength R (series ! i))
           \<and> rangeHelper R (lookupProp R (series ! i) ''data'') (attributeOf p) = Inr (Arr dmn)
           \<and> length dmn = dataLength R (series ! i)
           \<and> getColor R table p = bindE (keyOf R p) (\<lambda>k. scaleOf p palette (Arr dmn) k)"
proof -
  from longest_series [OF assms(5,6)]
  obtain i where i: "i < length series"
    "\<forall>j < length series. dataLength R (series ! j) \<le> dataLength R (series ! i)"
    "\<forall>j < i. dataLength R (series ! j) < dataLength R (series ! i)"
    "bindE (maxIndex series (\<lambda>d. bindE (getProp R d ''data'') (\<lambda>x. getProp R x ''length'')))
           (\<lambda>maxIdx. getProp R (arrayAt series maxIdx) ''data'')
       = Inr (lookupProp R (series ! i) ''data'')"
    by blast
  have "isSeries R (series ! i)" using assms(6) i(1) by (simp add: list_all_length)
  then obtain items where items: "lookupProp R (series ! i) ''data'' = Arr items"
    "dataLength R (series ! i) = length items" by (rule isSeries_data)
  obtain dmn where dmn: "rangeHelper R (Arr items) (attributeOf p) = Inr (Arr dmn)"
    "length dmn = length items"
    using rangeHelper_length [of R items "attributeOf p"] by blast
  have "getColor R table p = bindE (keyOf R p) (\<lambda>k. scaleOf p palette (Arr dmn) k)"
    using assms(1-4) i(4) items(1) dmn(1)
    by (simp add: getColor_def namedScheme_Arr isMultiSeriesOf_def)
  then show ?thesis using i(1-3) items dmn by auto
qed

theorem getColor_multiSeries_longest_witness:
  "colorScheme (unset\<lparr>colorScheme := Value (Arr rgb), data := twoAndFive,
                     isMultiSeries := Some True, scale := Some domainProbe, key := Str ''q''\<rparr>)
     = Value (Arr rgb)
   \<and> list_all (isSeries sampleRealm) [Obj [(''key'', Str ''s1''),
               (''data'', Arr [Obj [(''key'', Str ''a'')], Obj [(''key'', Str ''b'')]])],
          Obj [(''key'', Str ''s2''),
               (''data'', Arr [Obj [(''key'', Str ''p'')], Obj [(''key'', Str ''q'')],
                               Obj [(''key'', Str ''r'')], Obj [(''key'', Str ''s'')],
                               Obj [(''key'', Str ''t'')]])]]
   \<and> (\<exists>dmn. length dmn = 5
         \<and> getColor sampleRealm sampleSchemes
             (unset\<lparr>colorScheme := Value (Arr rgb), data := twoAndFive,
                    isMultiSeries := Some True, scale := Some domainProbe, key := Str ''q''\<rparr>)
           = Inr (Arr dmn))"
proof -
  let ?p = "unset\<lparr>colorScheme := Value (Arr rgb), data := twoAndFive,
                    isMultiSeries := Some True, scale := Some domainProbe, key := Str ''q''\<rparr>"
  let ?series = "[Obj [(''key'', Str ''s1''),
               (''data'', Arr [Obj [(''key'', Str ''a'')], Obj [(''key'', Str ''b'')]])],
          Obj [(''key'', Str ''s2''),
               (''data'', Arr [Obj [(''key'', Str ''p'')], Obj [(''key'', Str ''q'')],
                               Obj [(''key'', Str ''r'')], Obj [(''key'', Str ''s'')],
                               Obj [(''key'', Str ''t'')]])]]"
  have h1: "colorScheme ?p = Value (Arr rgb)" by simp
  have h2: "\<not> truthy (domain ?p)" by (simp add: unset_def)
  have h3: "isMultiSeries ?p = Some True" by simp
  have h4: "data ?p = Arr ?series" by (simp add: twoAndFive_def)
  have h5: "?series \<noteq> []" by simp
  have h6: "list_all (isSeries sampleRealm) ?series" by (simp add: isSeries_def)
  from getColor_multiSeries_longest [OF h1 h2 h3 h4 h5 h6, of sampleSchemes]
  obtain i dmn where r: "i < length ?series"
    "\<forall>j < length ?series. dataLength sampleRealm (?series ! j) \<le> dataLength sampleRealm (?series ! i)"
    "length dmn = dataLength sampleRealm (?series ! i)"
    "getColor sampleRealm sampleSchemes ?p
       = bindE (keyOf sampleRealm ?p) (\<lambda>k. scaleOf ?p rgb (Arr dmn) k)"
    by blast
  have "dataLength sampleRealm (?series ! 1) \<le> dataLength sampleRealm (?series ! i)"
    using r(2) [THEN spec, of 1] by simp
  then have "5 \<le> dataLength sampleRealm (?series ! i)" by (simp add: dataLength_def)
  moreover have "i = 0 \<or> i = 1" using r(1) by auto
  ultimately have "dataLength sampleRealm (?series ! i) = 5" by (auto simp: dataLength_def)
  then have "length dmn = 5" using r(3) by simp
  moreover have "getColor sampleRealm sampleSchemes ?p = Inr (Arr dmn)"
    using r(4) by (simp add: keyOf_def scaleOf_def domainProbe_def unset_def)
  ultimately show ?thesis using h1 h6 by blast
qed

section \<open>Domain derivation\<close>

lemma definedProp_eq:
  "definedProp R v k = (\<not> nullish v \<and> lookupProp R v k \<noteq> Undefined)"
  by (simp add: definedProp_def getProp_def)

lemma domainEntry_agrees:
  assumes "plainElement R r"
  shows "domainEntry R attr i r = domainEntry_spec R attr i r"
proof (cases "truthy r")
  case True
  then have r: "\<not> nullish r" by (rule truthy_not_nullish)
  have d: "truthy (lookupProp R r ''data'') \<or> nullish (lookupProp R r ''data'')"
    using assms by (simp add: plainElement_def)
  then have "definedProp R (lookupProp R r ''data'') attr
             = (truthy (lookupProp R r ''data'')
                \<and> lookupProp R (lookupProp R r ''data'') attr \<noteq> Undefined)"
    by (auto simp: definedProp_eq truthy_not_nullish)
  then show ?thesis
    using True r by (simp add: domainEntry_def domainEntry_spec_def definedProp_eq)
next
  case False
  then have r: "nullish r" using assms by (simp add: plainElement_def)
  then have "lookupProp R r ''data'' = Undefined" by (rule lookupProp_nullish)
  then show ?thesis
    using False r by (simp add: domainEntry_def domainEntry_spec_def definedProp_eq)
qed

lemma domainEntry_falsy: "\<not> truthy r \<Longrightarrow> domainEntry R attr i r = Num (int i)"
  by (simp add: domainEntry_def)

text \<open>
  C4, as the code has it. For every series \<open>rangeHelper\<close> returns a domain of the
  same length, and its entry at position \<open>i\<close> is the element's attribute when the
  element is truthy and the attribute is defined, else the attribute of the element's
  \<^verbatim>\<open>data\<close> when the element and its \<^verbatim>\<open>data\<close> are truthy and that is defined, else
  \<open>i\<close>. A falsy element gets its index. On every element that is truthy, null or
  undefined and whose \<^verbatim>\<open>data\<close> is truthy, null or undefined (every object with an
  object, an array or nothing as its data) this is the entry the specification
  describes.
\<close>

theorem rangeHelper_entries:
  "\<exists>dmn. rangeHelper R (Arr rs) attr = Inr (Arr dmn) \<and> length dmn = length rs
     \<and> (\<forall>i < length rs. dmn ! i = domainEntry R attr i (rs ! i)
           \<and> (\<not> truthy (rs ! i) \<longrightarrow> dmn ! i = Num (int i))
           \<and> (plainElement R (rs ! i) \<longrightarrow> dmn ! i = domainEntry_spec R attr i (rs ! i)))"
  by (simp add: rangeHelper_Arr nth_enumerate_eq domainEntry_agrees domainEntry_falsy)

theorem rangeHelper_entries_witness:
  "plainElement sampleRealm (Obj [(''data'', Obj [(''key'', Str ''c'')])])
   \<and> (\<exists>dmn. rangeHelper sampleRealm
               (Arr [Obj [(''key'', Str ''a'')], Null,
                     Obj [(''data'', Obj [(''key'', Str ''c'')])], Obj [(''id'', Num 7)]]) ''key''
            = Inr (Arr dmn) \<and> length dmn = 4
          \<and> dmn ! 0 = Str ''a'' \<and> dmn ! 1 = Num 1 \<and> dmn ! 2 = Str ''c'' \<and> dmn ! 3 = Num 3
          \<and> dmn ! 2 = domainEntry_spec sampleRealm ''key'' 2
                         (Obj [(''data'', Obj [(''key'', Str ''c'')])]))"
proof -
  let ?rs = "[Obj [(''key'', Str ''a'')], Null, Obj [(''data'', Obj [(''key'', Str ''c'')])],
              Obj [(''id'', Num 7)]]"
  have inh: "inherited sampleRealm v ''key'' = Undefined" "inherited sampleRealm v ''data'' = Undefined"
    for v
    by (cases v; simp add: sampleRealm_def sampleInherited_def objectProto_def)+
  have pl: "plainElement sampleRealm (Obj [(''data'', Obj [(''key'', Str ''c'')])])"
    by (simp add: plainElement_def)
  from rangeHelper_entries [of sampleRealm ?rs "''key''"]
  obtain dmn where d: "rangeHelper sampleRealm (Arr ?rs) ''key'' = Inr (Arr dmn)"
    "length dmn = length ?rs"
    "\<forall>i < length ?rs. dmn ! i = domainEntry sampleRealm ''key'' i (?rs ! i)
           \<and> (\<not> truthy (?rs ! i) \<longrightarrow> dmn ! i = Num (int i))
           \<and> (plainElement sampleRealm (?rs ! i)
                \<longrightarrow> dmn ! i = domainEntry_spec sampleRealm ''key'' i (?rs ! i))"
    by blast
  have "dmn ! 0 = Str ''a''" using d(3) [THEN spec, of 0] by (simp add: domainEntry_def)
  moreover have "dmn ! 1 = Num 1" using d(3) [THEN spec, of 1] by (simp add: domainEntry_def)
  moreover have "dmn ! 2 = Str ''c''"
    using d(3) [THEN spec, of 2] by (simp add: domainEntry_def inh)
  moreover have "dmn ! 3 = Num 3"
    using d(3) [THEN spec, of 3] by (simp add: domainEntry_def inh)
  moreover have "dmn ! 2 = domainEntry_spec sampleRealm ''key'' 2
                         (Obj [(''data'', Obj [(''key'', Str ''c'')])])"
  proof -
    have "2 < length ?rs" by simp
    with d(3) have "plainElement sampleRealm (?rs ! 2)
        \<longrightarrow> dmn ! 2 = domainEntry_spec sampleRealm ''key'' 2 (?rs ! 2)"
      by blast
    then show ?thesis using pl by simp
  qed
  ultimately show ?thesis using d(1,2) pl by auto
qed

text \<open>
  C4, as the specification states it, fails on a falsy element that has the
  attribute. The empty string has a \<^verbatim>\<open>length\<close>, which is 0, and the number 0 inherits
  \<^verbatim>\<open>toString\<close>, but line 32 sends every falsy element to its index: at position 1 the
  code gives 1 where that wording gives the attribute.
\<close>

theorem rangeHelper_falsy_element:
  "rangeHelper sampleRealm (Arr [Str ''x'', Str '''']) ''length'' = Inr (Arr [Num 1, Num 1])
   \<and> domainEntry_spec sampleRealm ''length'' 1 (Str '''') = Num 0
   \<and> rangeHelper sampleRealm (Arr [Bool False, Num 0]) ''toString'' = Inr (Arr [Num 0, Num 1])
   \<and> domainEntry_spec sampleRealm ''toString'' 1 (Num 0) = Fn ''Number.prototype.toString''"
  by (simp add: rangeHelper_Arr enumerate_eq_zip domainEntry_def domainEntry_spec_def
      definedProp_def getProp_def sampleRealm_def sampleInherited_def)

section \<open>When \<open>getColor\<close> returns\<close>

lemma scaleOrdinal_returns: "\<exists>v. scaleOrdinal palette (Arr ds) k = Inr v"
  by (simp add: scaleOrdinal_def iterate_def)

lemma keyOf_returns: "key p \<noteq> Undefined \<or> \<not> nullish (point p) \<Longrightarrow> \<exists>k. keyOf R p = Inr k"
  by (auto simp: keyOf_def getProp_def)

lemma derived_domain_returns:
  assumes "data p = Arr series"
    and "isMultiSeriesOf p \<longrightarrow> series \<noteq> [] \<and> list_all (isSeries R) series"
  shows "\<exists>ds. bindE
                 (case data p of
                    Arr series \<Rightarrow>
                      if isMultiSeriesOf p then
                        bindE (maxIndex series
                                 (\<lambda>d. bindE (getProp R d ''data'') (\<lambda>x. getProp R x ''length'')))
                          (\<lambda>maxIdx. getProp R (arrayAt series maxIdx) ''data'')
                      else Inr (Arr series)
                  | d \<Rightarrow> Inr d)
                 (\<lambda>d. rangeHelper R d (attributeOf p)) = Inr (Arr ds)"
proof (cases "isMultiSeriesOf p")
  case False
  then show ?thesis using assms(1) by (simp add: rangeHelper_Arr)
next
  case True
  then have s: "series \<noteq> []" "list_all (isSeries R) series" using assms(2) by auto
  from longest_series [OF s]
  obtain i where i: "i < length series"
    "bindE (maxIndex series (\<lambda>d. bindE (getProp R d ''data'') (\<lambda>x. getProp R x ''length'')))
           (\<lambda>maxIdx. getProp R (arrayAt series maxIdx) ''data'')
       = Inr (lookupProp R (series ! i) ''data'')"
    by blast
  have "isSeries R (series ! i)" using s(2) i(1) by (simp add: list_all_length)
  then obtain items where "lookupProp R (series ! i) ''data'' = Arr items" by (rule isSeries_data)
  then show ?thesis using True assms(1) i(2) by (simp add: rangeHelper_Arr)
qed

text \<open>
  C1, as the code has it. \<open>getColor\<close> returns a value when the colour scheme (after the
  lookup of a name) is a literal; when it is a function that returns; and when it is a
  palette used with the default ordinal scale, a key is given or the point is neither
  null nor undefined, and either the domain is an array or there is no domain and the
  data is an array (with \<^verbatim>\<open>isMultiSeries\<close>: a non-empty array of series).
\<close>

theorem getColor_returns:
  assumes "case namedScheme table (colorScheme p) of
             Callback f \<Rightarrow> \<exists>v. f (point p) (index p) (active p) = Inr v
           | Value (Arr palette) \<Rightarrow>
               scale p = None \<and> (key p \<noteq> Undefined \<or> \<not> nullish (point p))
               \<and> (isArray (domain p)
                  \<or> (\<not> truthy (domain p)
                      \<and> (\<exists>series. data p = Arr series
                            \<and> (isMultiSeriesOf p
                                 \<longrightarrow> series \<noteq> [] \<and> list_all (isSeries R) series))))
           | Value (Fn name) \<Rightarrow> \<exists>v. callFn R name (point p) (index p) (active p) = Inr v
           | Value v \<Rightarrow> True"
  shows "\<exists>v. getColor R table p = Inr v"
proof (cases "namedScheme table (colorScheme p)")
  case (Callback f)
  then show ?thesis using assms by (simp add: getColor_def)
next
  case (Value v)
  show ?thesis
  proof (cases "isArray v")
    case False
    then show ?thesis using Value assms by (cases v) (simp_all add: getColor_def)
  next
    case True
    then obtain palette where v: "v = Arr palette" by (cases v) simp_all
    have a: "scale p = None" "key p \<noteq> Undefined \<or> \<not> nullish (point p)"
      "isArray (domain p)
         \<or> (\<not> truthy (domain p)
             \<and> (\<exists>series. data p = Arr series
                   \<and> (isMultiSeriesOf p \<longrightarrow> series \<noteq> [] \<and> list_all (isSeries R) series)))"
      using assms Value v by simp_all
    obtain k where k: "keyOf R p = Inr k" using keyOf_returns [OF a(2)] by blast
    have sc: "scaleOf p = scaleOrdinal" using a(1) by (simp add: scaleOf_def)
    from a(3) show ?thesis
    proof
      assume "isArray (domain p)"
      then obtain ds where ds: "domain p = Arr ds" by (cases "domain p") simp_all
      obtain w where "scaleOrdinal palette (Arr ds) k = Inr w"
        using scaleOrdinal_returns by blast
      then show ?thesis using Value v ds k sc by (simp add: getColor_def)
    next
      assume b: "\<not> truthy (domain p)
             \<and> (\<exists>series. data p = Arr series
                   \<and> (isMultiSeriesOf p \<longrightarrow> series \<noteq> [] \<and> list_all (isSeries R) series))"
      then obtain series where s: "data p = Arr series"
        "isMultiSeriesOf p \<longrightarrow> series \<noteq> [] \<and> list_all (isSeries R) series" by blast
      from derived_domain_returns [OF s] obtain ds where
        ds: "bindE
                 (case data p of
                    Arr series \<Rightarrow>
                      if isMultiSeriesOf p then
                        bindE (maxIndex series
                                 (\<lambda>d. bindE (getProp R d ''data'') (\<lambda>x. getProp R x ''length'')))
                          (\<lambda>maxIdx. getProp R (arrayAt series maxIdx) ''data'')
                      else Inr (Arr series)
                  | d \<Rightarrow> Inr d)
                 (\<lambda>d. rangeHelper R d (attributeOf p)) = Inr (Arr ds)" by blast
      obtain w where "scaleOrdinal palette (Arr ds) k = Inr w"
        using scaleOrdinal_returns by blast
      then show ?thesis using Value v ds k sc b by (simp add: getColor_def)
    qed
  qed
qed

theorem getColor_returns_witness:
  "namedScheme sampleSchemes
       (colorScheme (unset\<lparr>colorScheme := Value (Arr rgb), data := abc,
                           point := Obj [(''key'', Str ''c'')]\<rparr>))
     = Value (Arr rgb)
   \<and> scale (unset\<lparr>colorScheme := Value (Arr rgb), data := abc,
                  point := Obj [(''key'', Str ''c'')]\<rparr>) = None
   \<and> \<not> nullish (point (unset\<lparr>colorScheme := Value (Arr rgb), data := abc,
                              point := Obj [(''key'', Str ''c'')]\<rparr>))
   \<and> \<not> truthy (domain (unset\<lparr>colorScheme := Value (Arr rgb), data := abc,
                              point := Obj [(''key'', Str ''c'')]\<rparr>))
   \<and> isArray (data (unset\<lparr>colorScheme := Value (Arr rgb), data := abc,
                          point := Obj [(''key'', Str ''c'')]\<rparr>))
   \<and> (\<exists>v. getColor sampleRealm sampleSchemes
              (unset\<lparr>colorScheme := Value (Arr rgb), data := abc,
                     point := Obj [(''key'', Str ''c'')]\<rparr>) = Inr v)"
  using getColor_returns
    [where table = sampleSchemes and R = sampleRealm
       and p = "unset\<lparr>colorScheme := Value (Arr rgb), data := abc,
                      point := Obj [(''key'', Str ''c'')]\<rparr>"]
  by (simp add: namedScheme_Arr unset_def abc_def isMultiSeriesOf_def)

text \<open>
  C1, as the specification states it, fails on the input it names: with a palette and
  neither domain nor data, line 77 calls \<^verbatim>\<open>map\<close> on undefined and a TypeError is thrown.
\<close>

theorem getColor_throws_without_data:
  "getColor sampleRealm sampleSchemes
       \<lparr> colorScheme = Value (Arr rgb), point = Obj [(''key'', Str ''b'')], data = Undefined,
         index = Num 0, active = Undefined, scale = None, domain = Undefined, key = Undefined,
         attribute = None, isMultiSeries = None \<rparr>
     = Inl TypeError"
  by (simp add: getColor_def namedScheme_def rangeHelper_nullish)

section \<open>Value scales\<close>

lemma getValueScale_returns:
  "valueDomainOf L dat = Inr vd
   \<Longrightarrow> getValueScale L dat cs emptyColor = Inr (valueScale L vd cs emptyColor)"
  by (simp add: getValueScale_def)

lemma getValueScale_Inr:
  assumes "getValueScale L dat cs emptyColor = Inr f"
  obtains vd where "valueDomainOf L dat = Inr vd" and "f = valueScale L vd cs emptyColor"
proof (cases "valueDomainOf L dat")
  case (Inl e)
  then show thesis using assms by (simp add: getValueScale_def)
next
  case (Inr vd)
  then show thesis using assms that by (simp add: getValueScale_def)
qed




lemma objectArray_items:
  assumes "isColorSchemeObjectArray cs"
  obtains x xs where "cs = Value (Arr (x # xs))" and "typeofObject x"
proof (cases cs)
  case (Callback f)
  then show thesis using assms by (simp add: isColorSchemeObjectArray_def)
next
  case (Value v)
  show thesis
  proof (cases v)
    case (Arr items)
    show thesis
    proof (cases items)
      case Nil
      then show thesis using assms Value Arr by (simp add: isColorSchemeObjectArray_def)
    next
      case (Cons x xs)
      then show thesis using assms Value Arr that by (simp add: isColorSchemeObjectArray_def)
    qed
  qed (use assms Value in \<open>simp_all add: isColorSchemeObjectArray_def\<close>)
qed



lemma scales_throw_on_nullish:
  assumes "isColorSchemeObjectArray cs" and "x \<in> set (paletteItems cs)" and "nullish x"
  shows "\<exists>e. createColorSchemeValueScales L dat cs emptyColor = Inl e"
proof -
  from assms(1) obtain y ys where cs: "cs = Value (Arr (y # ys))" by (rule objectArray_items)
  have "x \<in> set (y # ys)" using assms(2) by (simp add: paletteItems_def cs)
  moreover have "objectKeys x = Inl TypeError" using assms(3) by (simp add: objectKeys_def)
  ultimately have "\<exists>e. mapE objectKeys (y # ys) = Inl e"
    by (rule mapE_fails [of x "y # ys" objectKeys TypeError])
  then obtain e where "mapE objectKeys (y # ys) = Inl e" by blast
  then show ?thesis using assms(1) by (simp add: createColorSchemeValueScales_def cs)
qed


lemma heat_domain: "valueDomainOf sampleLibs heat = Inr (Arr [Num 3, Num 7])"
  by (simp add: valueDomainOf_def sampleLibs_def uniqueBy_spec_def extent_spec_def heat_def
      iterate_def getProp_def)





text \<open>
  C8. The function that \<open>getValueScale\<close> returns gives \<open>emptyColor\<close> on undefined,
  whatever the data, the colour scheme, the scale and the value domain are.
\<close>

theorem valueScale_undefined:
  assumes "getValueScale L dat cs emptyColor = Inr f"
  shows "f Undefined = Inr emptyColor"
proof -
  from assms obtain vd where "f = valueScale L vd cs emptyColor" by (rule getValueScale_Inr)
  then show ?thesis by (simp add: valueScale_def)
qed

theorem valueScale_undefined_witness:
  "getValueScale sampleLibs heat (Value (Arr rgb)) (Str ''#eee'')
     = Inr (valueScale sampleLibs (Arr [Num 3, Num 7]) (Value (Arr rgb)) (Str ''#eee''))
   \<and> valueScale sampleLibs (Arr [Num 3, Num 7]) (Value (Arr rgb)) (Str ''#eee'') Undefined
     = Inr (Str ''#eee'')"
proof -
  have h: "getValueScale sampleLibs heat (Value (Arr rgb)) (Str ''#eee'')
     = Inr (valueScale sampleLibs (Arr [Num 3, Num 7]) (Value (Arr rgb)) (Str ''#eee''))"
    using heat_domain by (rule getValueScale_returns)
  show ?thesis using valueScale_undefined [OF h] h by simp
qed

lemma valueScale_delegates:
  assumes "v \<noteq> Undefined" and "v \<noteq> Null"
  shows "valueScale L vd cs emptyColor v
         = getColor (realm L) (schemes L)
             \<lparr> colorScheme = cs, point = Undefined, data = Undefined, index = Undefined,
               active = Undefined, scale = Some (scaleQuantile L), domain = vd,
               key = v, attribute = None, isMultiSeries = None \<rparr>"
  using assms by (simp add: valueScale_def)

lemma getColor_quantile:
  assumes "namedScheme table cs = Value (Arr palette)" and "truthy vd" and "v \<noteq> Undefined"
  shows "getColor R table
             \<lparr> colorScheme = cs, point = Undefined, data = Undefined, index = Undefined,
               active = Undefined, scale = Some q, domain = vd,
               key = v, attribute = None, isMultiSeries = None \<rparr>
         = q palette vd v"
  using assms by (simp add: getColor_def keyOf_def scaleOf_def)

text \<open>
  C10, as the code has it. The function that \<open>getValueScale\<close> returns gives
  \<open>emptyColor\<close> on undefined and on null. Every other argument, the number 0 included,
  goes as the key to \<open>getColor\<close> with the quantile scale and the computed domain: for a
  palette (and a truthy domain) the result is the quantile scale's, for a function it
  is the function's on three undefined arguments, for a literal it is the literal.
\<close>

theorem valueScale_branches:
  assumes "getValueScale L dat cs emptyColor = Inr f"
  shows "\<exists>vd. valueDomainOf L dat = Inr vd
           \<and> f Undefined = Inr emptyColor
           \<and> f Null = Inr emptyColor
           \<and> (\<forall>v. v \<noteq> Undefined \<and> v \<noteq> Null \<longrightarrow>
                  f v = getColor (realm L) (schemes L)
                          \<lparr> colorScheme = cs, point = Undefined, data = Undefined,
                            index = Undefined, active = Undefined,
                            scale = Some (scaleQuantile L), domain = vd,
                            key = v, attribute = None, isMultiSeries = None \<rparr>
                  \<and> (\<forall>palette. namedScheme (schemes L) cs = Value (Arr palette) \<and> truthy vd
                         \<longrightarrow> f v = scaleQuantile L palette vd v)
                  \<and> (\<forall>g. cs = Callback g \<longrightarrow> f v = g Undefined Undefined Undefined)
                  \<and> (\<forall>name. namedScheme (schemes L) cs = Value (Fn name)
                         \<longrightarrow> f v = callFn (realm L) name Undefined Undefined Undefined)
                  \<and> (\<forall>lit. namedScheme (schemes L) cs = Value lit \<and> \<not> isArray lit
                            \<and> \<not> isFunction lit
                         \<longrightarrow> f v = Inr lit))"
proof -
  from assms obtain vd where vd: "valueDomainOf L dat = Inr vd"
    and f: "f = valueScale L vd cs emptyColor" by (rule getValueScale_Inr)
  have u: "f Undefined = Inr emptyColor" "f Null = Inr emptyColor"
    by (simp_all add: f valueScale_def)
  have other: "f v = getColor (realm L) (schemes L)
                          \<lparr> colorScheme = cs, point = Undefined, data = Undefined,
                            index = Undefined, active = Undefined,
                            scale = Some (scaleQuantile L), domain = vd,
                            key = v, attribute = None, isMultiSeries = None \<rparr>
                  \<and> (\<forall>palette. namedScheme (schemes L) cs = Value (Arr palette) \<and> truthy vd
                         \<longrightarrow> f v = scaleQuantile L palette vd v)
                  \<and> (\<forall>g. cs = Callback g \<longrightarrow> f v = g Undefined Undefined Undefined)
                  \<and> (\<forall>name. namedScheme (schemes L) cs = Value (Fn name)
                         \<longrightarrow> f v = callFn (realm L) name Undefined Undefined Undefined)
                  \<and> (\<forall>lit. namedScheme (schemes L) cs = Value lit \<and> \<not> isArray lit
                            \<and> \<not> isFunction lit
                         \<longrightarrow> f v = Inr lit)"
    if v: "v \<noteq> Undefined" "v \<noteq> Null" for v
  proof -
    have d: "f v = getColor (realm L) (schemes L)
                          \<lparr> colorScheme = cs, point = Undefined, data = Undefined,
                            index = Undefined, active = Undefined,
                            scale = Some (scaleQuantile L), domain = vd,
                            key = v, attribute = None, isMultiSeries = None \<rparr>"
      unfolding f using v by (rule valueScale_delegates)
    have q: "f v = scaleQuantile L palette vd v"
      if "namedScheme (schemes L) cs = Value (Arr palette)" "truthy vd" for palette
      unfolding d using that v(1) by (rule getColor_quantile)
    have c: "f v = g Undefined Undefined Undefined" if "cs = Callback g" for g
      unfolding d using that by (simp add: getColor_def namedScheme_Callback)
    have n: "f v = callFn (realm L) name Undefined Undefined Undefined"
      if "namedScheme (schemes L) cs = Value (Fn name)" for name
      unfolding d using that by (simp add: getColor_def)
    have l: "f v = Inr lit"
      if "namedScheme (schemes L) cs = Value lit" "\<not> isArray lit" "\<not> isFunction lit" for lit
      unfolding d using that by (cases lit) (simp_all add: getColor_def)
    show ?thesis using d q c n l by blast
  qed
  show ?thesis using vd u other by blast
qed

theorem valueScale_branches_witness:
  "getValueScale sampleLibs heat (Value (Arr rgb)) (Str ''#eee'')
     = Inr (valueScale sampleLibs (Arr [Num 3, Num 7]) (Value (Arr rgb)) (Str ''#eee''))
   \<and> valueScale sampleLibs (Arr [Num 3, Num 7]) (Value (Arr rgb)) (Str ''#eee'') Null
     = Inr (Str ''#eee'')
   \<and> valueScale sampleLibs (Arr [Num 3, Num 7]) (Value (Arr rgb)) (Str ''#eee'') (Num 0)
     = Inr (Str ''red'')
   \<and> valueScale sampleLibs (Arr [Num 3, Num 7]) (Value (Arr rgb)) (Str ''#eee'') (Num 7)
     = Inr (Str ''blue'')"
proof -
  let ?f = "valueScale sampleLibs (Arr [Num 3, Num 7]) (Value (Arr rgb)) (Str ''#eee'')"
  have h: "getValueScale sampleLibs heat (Value (Arr rgb)) (Str ''#eee'') = Inr ?f"
    using heat_domain by (rule getValueScale_returns)
  from valueScale_branches [OF h] obtain vd where
    vd: "valueDomainOf sampleLibs heat = Inr vd" and n: "?f Null = Inr (Str ''#eee'')"
    and o: "\<forall>v. v \<noteq> Undefined \<and> v \<noteq> Null \<longrightarrow>
              (\<forall>palette. namedScheme (schemes sampleLibs) (Value (Arr rgb)) = Value (Arr palette)
                    \<and> truthy vd \<longrightarrow> ?f v = scaleQuantile sampleLibs palette vd v)"
    by blast
  have vd': "vd = Arr [Num 3, Num 7]" using vd heat_domain by simp
  have q: "?f v = scaleQuantile_spec rgb (Arr [Num 3, Num 7]) v"
    if "v \<noteq> Undefined" "v \<noteq> Null" for v
    using o that vd' by (simp add: namedScheme_Arr sampleLibs_def)
  have "?f (Num 0) = Inr (Str ''red'')"
    using q [of "Num 0"]
    by (simp add: scaleQuantile_spec_def iterate_def quantileBin_def rgb_def upt_rec)
  moreover have "?f (Num 7) = Inr (Str ''blue'')"
    using q [of "Num 7"]
    by (simp add: scaleQuantile_spec_def iterate_def quantileBin_def rgb_def upt_rec)
  ultimately show ?thesis using h n by simp
qed

text \<open>
  C10, as the specification states it, fails when the other branch produces
  \<open>emptyColor\<close> too: with the literal colour scheme red and the empty colour red, the
  argument 0 gives red, and no quantile scale is consulted.
\<close>

theorem valueScale_literal_emptyColor:
  "bindE (getValueScale sampleLibs heat (Value (Str ''red'')) (Str ''red'')) (callWith (Num 0))
     = Inr (Str ''red'')
   \<and> Num 0 \<noteq> Undefined \<and> Num 0 \<noteq> Null"
proof -
  have "getValueScale sampleLibs heat (Value (Str ''red'')) (Str ''red'')
        = Inr (valueScale sampleLibs (Arr [Num 3, Num 7]) (Value (Str ''red'')) (Str ''red''))"
    using heat_domain by (rule getValueScale_returns)
  moreover have "schemes sampleLibs = sampleSchemes" by (simp add: sampleLibs_def)
  moreover have "\<not> truthyScheme (sampleSchemes ''red'')"
    by (simp add: sampleSchemes_def objectLiteral_def sampleEntries_def sampleRealm_def
        sampleInherited_def objectProto_def)
  ultimately show ?thesis
    by (simp add: callWith_def valueScale_def getColor_def namedScheme_def)
qed

end
